theory Spec2Isabelle
  imports Main "HOL-Library.Sublist"
begin

section \<open>Data model (core/models)\<close>

text \<open>
  \<^verbatim>\<open>user.interface.ts\<close>: the role enumeration, the profile row and the standardised
  response of the authentication operations. A TypeScript \<^verbatim>\<open>T | null\<close> is an
  \<open>option\<close>; a JavaScript string is a \<open>string\<close>.
\<close>

datatype UserRole = ADMIN | MEMBER

record Profile =
  profile_id :: string
  profile_email :: string
  full_name :: "string option"
  avatar_url :: "string option"
  role :: UserRole
  created_at :: string
  updated_at :: string

record SignUpRequest =
  signup_email :: string
  signup_password :: string
  signup_full_name :: string
  signup_role :: "UserRole option"

record SignInRequest =
  signin_email :: string
  signin_password :: string

record AuthResponse =
  success :: bool
  error :: "string option"
  profile :: "Profile option"

section \<open>Error remapping (AuthService.formatAuthError)\<close>

text \<open>
  \<^verbatim>\<open>error.includes(key)\<close> of JavaScript: \<open>key\<close> occurs in \<open>error\<close> as a contiguous
  run of characters. The keys of the map are ASCII, so counting bytes or UTF-16 code
  units makes no difference to the test.
\<close>

definition str_includes :: "string \<Rightarrow> string \<Rightarrow> bool" where
  "str_includes s key = sublist key s"

text \<open>
  The object literal \<^verbatim>\<open>errorMap\<close>; \<^verbatim>\<open>Object.entries\<close> lists its string keys in
  insertion order, so it is an association list in the order of the source.
\<close>

definition errorMap :: "(string \<times> string) list" where
  "errorMap =
    [(''Invalid login credentials'',
        ''Invalid email or password. Please try again.''),
     (''Email not confirmed'',
        ''Please verify your email address before signing in.''),
     (''User already registered'', ''An account with this email already exists.''),
     (''Password should be at least 6 characters'',
        ''Password must be at least 6 characters long.''),
     (''Unable to validate email address: invalid format'',
        ''Please enter a valid email address.''),
     (''Database error saving new user'',
        ''Registration failed. Please try again.''),
     (''signup is disabled'',
        ''Registration is currently disabled. Please contact support.'')]"

text \<open>The \<^verbatim>\<open>for (const [key, value] of Object.entries(errorMap))\<close> loop.\<close>

fun formatAuthError_loop :: "(string \<times> string) list \<Rightarrow> string \<Rightarrow> string" where
  "formatAuthError_loop [] err = err"
| "formatAuthError_loop ((key, val) # rest) err =
     (if str_includes err key then val else formatAuthError_loop rest err)"

definition formatAuthError :: "string \<Rightarrow> string" where
  "formatAuthError err = formatAuthError_loop errorMap err"

section \<open>The backend SDK and the router, as seen by AuthService\<close>

text \<open>
  The SDK is outside the repository: a call is a promise that either rejects with an
  error object (of which only \<^verbatim>\<open>message\<close> is read, possibly undefined) or resolves
  with the \<^verbatim>\<open>{ data, error }\<close> object of the SDK. The replies of the backend are the
  parameter \<open>Backend\<close> of every operation, and every call the code issues is appended
  to \<open>sdk_requests\<close>.
\<close>

datatype 'a promise = Rejected "string option" | Resolved 'a

record User =
  user_id :: string

text \<open>\<^verbatim>\<open>{ data: { user }, error }\<close> of \<^verbatim>\<open>auth.signUp\<close> and \<^verbatim>\<open>auth.signInWithPassword\<close>;
  \<open>auth_error\<close> is \<^verbatim>\<open>error.message\<close> when \<^verbatim>\<open>error\<close> is not null.\<close>

record AuthResult =
  data_user :: "User option"
  auth_error :: "string option"

text \<open>\<^verbatim>\<open>{ data, error }\<close> of \<^verbatim>\<open>from('profiles').select('*').eq('id', userId).single()\<close>.\<close>

record SelectResult =
  select_data :: "Profile option"
  select_error :: "string option"

text \<open>\<^verbatim>\<open>Partial<Profile>\<close>: every field of the profile row may be left out.\<close>

record ProfilePartial =
  upd_id :: "string option"
  upd_email :: "string option"
  upd_full_name :: "string option option"
  upd_avatar_url :: "string option option"
  upd_role :: "UserRole option"
  upd_created_at :: "string option"
  upd_updated_at :: "string option"

datatype request =
    AuthSignUp string string string UserRole
  | AuthSignInWithPassword string string
  | AuthSignOut
  | ProfilesSelectSingle string
  | ProfilesUpdate ProfilePartial string

record Backend =
  auth_signUp :: "string \<Rightarrow> string \<Rightarrow> string \<Rightarrow> UserRole \<Rightarrow> AuthResult promise"
  auth_signInWithPassword :: "string \<Rightarrow> string \<Rightarrow> AuthResult promise"
  auth_signOut :: "string option promise"
  profiles_select_single :: "string \<Rightarrow> SelectResult promise"
  profiles_update :: "ProfilePartial \<Rightarrow> string \<Rightarrow> string option promise"

text \<open>
  The three signals of AuthService, the calls made to \<^verbatim>\<open>router.navigate\<close> and the calls
  made to the SDK, both oldest first.
\<close>

record World =
  profileSignal :: "Profile option"
  loadingSignal :: bool
  errorSignal :: "string option"
  navigations :: "string list"
  sdk_requests :: "request list"

text \<open>\<^verbatim>\<open>x || fallback\<close> on a \<^verbatim>\<open>string | null | undefined\<close>: the empty string is falsy too.\<close>

definition js_or :: "string option \<Rightarrow> string \<Rightarrow> string" where
  "js_or x fallback =
     (case x of None \<Rightarrow> fallback | Some s \<Rightarrow> if s = [] then fallback else s)"

section \<open>AuthService (core/services/auth.service.ts)\<close>

definition isAuthenticated :: "World \<Rightarrow> bool" where
  "isAuthenticated w = (profileSignal w \<noteq> None)"

text \<open>\<^verbatim>\<open>this.profileSignal()?.role === UserRole.ADMIN\<close>: \<^verbatim>\<open>undefined\<close> on a null profile.\<close>

definition isAdmin :: "World \<Rightarrow> bool" where
  "isAdmin w = (map_option role (profileSignal w) = Some ADMIN)"

definition clearError :: "World \<Rightarrow> World" where
  "clearError w = w\<lparr>errorSignal := None\<rparr>"

text \<open>
  \<^verbatim>\<open>fetchProfile\<close>: the \<^verbatim>\<open>try\<close> block throws on a rejected promise and on a non-null
  \<^verbatim>\<open>error\<close>; the \<^verbatim>\<open>catch\<close> block handles both alike.
\<close>

definition fetchProfile :: "Backend \<Rightarrow> string \<Rightarrow> World \<Rightarrow> World" where
  "fetchProfile bk userId w =
     (let w1 = w\<lparr>sdk_requests := sdk_requests w @ [ProfilesSelectSingle userId]\<rparr>;
          caught = w1\<lparr>profileSignal := None,
                      errorSignal := Some ''Failed to load user profile''\<rparr>
      in case profiles_select_single bk userId of
           Rejected _ \<Rightarrow> caught
         | Resolved r \<Rightarrow>
             (case select_error r of
                Some _ \<Rightarrow> caught
              | None \<Rightarrow> w1\<lparr>profileSignal := select_data r, errorSignal := None\<rparr>))"

text \<open>The subscriber of \<^verbatim>\<open>currentUser$\<close> installed by \<^verbatim>\<open>initializeAuth\<close>, run on one
  emission.\<close>

definition initializeAuth_next :: "Backend \<Rightarrow> User option \<Rightarrow> World \<Rightarrow> World" where
  "initializeAuth_next bk user w =
     (case user of
        Some u \<Rightarrow> fetchProfile bk (user_id u) w
      | None \<Rightarrow> w\<lparr>profileSignal := None\<rparr>)"

text \<open>
  \<^verbatim>\<open>signUp\<close> and \<^verbatim>\<open>signIn\<close>, subscribed to: the SDK call, the \<^verbatim>\<open>switchMap\<close> stage on
  its reply, the \<^verbatim>\<open>catchError\<close> stage on a rejection (\<^verbatim>\<open>fetchProfile\<close> never
  rejects), and the last \<^verbatim>\<open>map\<close> stage, which clears the loading signal. The observable
  emits the one response returned here.
\<close>

definition signUp :: "Backend \<Rightarrow> SignUpRequest \<Rightarrow> World \<Rightarrow> AuthResponse \<times> World" where
  "signUp bk request w =
     (let w1 = w\<lparr>loadingSignal := True, errorSignal := None\<rparr>;
          r = (case signup_role request of Some x \<Rightarrow> x | None \<Rightarrow> MEMBER);
          w2 = w1\<lparr>sdk_requests := sdk_requests w1 @
                 [AuthSignUp (signup_email request) (signup_password request)
                    (signup_full_name request) r]\<rparr>;
          (response, w3) =
            (case auth_signUp bk (signup_email request) (signup_password request)
                    (signup_full_name request) r of
               Rejected msg \<Rightarrow>
                 (let errorMessage =
                        formatAuthError (js_or msg ''An unexpected error occurred'')
                  in (\<lparr>success = False, error = Some errorMessage, profile = None\<rparr>,
                      w2\<lparr>errorSignal := Some errorMessage\<rparr>))
             | Resolved res \<Rightarrow>
                 (case auth_error res of
                    Some m \<Rightarrow>
                      (\<lparr>success = False, error = Some (formatAuthError m), profile = None\<rparr>,
                       w2\<lparr>errorSignal := Some (formatAuthError m)\<rparr>)
                  | None \<Rightarrow>
                      (case data_user res of
                         None \<Rightarrow>
                           (\<lparr>success = False, error = Some ''User creation failed'', profile = None\<rparr>,
                            w2\<lparr>errorSignal := Some ''User creation failed. Please try again.''\<rparr>)
                       | Some u \<Rightarrow>
                           (let wf = fetchProfile bk (user_id u) w2
                            in (\<lparr>success = True, error = None, profile = profileSignal wf\<rparr>,
                                wf)))))
      in (response, w3\<lparr>loadingSignal := False\<rparr>))"

definition signIn :: "Backend \<Rightarrow> SignInRequest \<Rightarrow> World \<Rightarrow> AuthResponse \<times> World" where
  "signIn bk request w =
     (let w1 = w\<lparr>loadingSignal := True, errorSignal := None\<rparr>;
          w2 = w1\<lparr>sdk_requests := sdk_requests w1 @
                 [AuthSignInWithPassword (signin_email request) (signin_password request)]\<rparr>;
          (response, w3) =
            (case auth_signInWithPassword bk (signin_email request) (signin_password request) of
               Rejected msg \<Rightarrow>
                 (let errorMessage =
                        formatAuthError (js_or msg ''An unexpected error occurred'')
                  in (\<lparr>success = False, error = Some errorMessage, profile = None\<rparr>,
                      w2\<lparr>errorSignal := Some errorMessage\<rparr>))
             | Resolved res \<Rightarrow>
                 (case auth_error res of
                    Some m \<Rightarrow>
                      (\<lparr>success = False, error = Some (formatAuthError m), profile = None\<rparr>,
                       w2\<lparr>errorSignal := Some (formatAuthError m)\<rparr>)
                  | None \<Rightarrow>
                      (case data_user res of
                         None \<Rightarrow>
                           (\<lparr>success = False, error = Some ''Sign in failed'', profile = None\<rparr>,
                            w2\<lparr>errorSignal := Some ''Sign in failed. Please check your credentials.''\<rparr>)
                       | Some u \<Rightarrow>
                           (let wf = fetchProfile bk (user_id u) w2
                            in (\<lparr>success = True, error = None, profile = profileSignal wf\<rparr>,
                                wf)))))
      in (response, w3\<lparr>loadingSignal := False\<rparr>))"

text \<open>Whether the \<^verbatim>\<open>try\<close> block of \<^verbatim>\<open>signOut\<close> throws: a rejected promise or a non-null
  \<^verbatim>\<open>error\<close>.\<close>

definition signOut_throws :: "Backend \<Rightarrow> bool" where
  "signOut_throws bk =
     (case auth_signOut bk of Rejected _ \<Rightarrow> True | Resolved e \<Rightarrow> e \<noteq> None)"

definition signOut :: "Backend \<Rightarrow> World \<Rightarrow> World" where
  "signOut bk w =
     (let w1 = w\<lparr>loadingSignal := True, errorSignal := None\<rparr>;
          w2 = w1\<lparr>sdk_requests := sdk_requests w1 @ [AuthSignOut]\<rparr>;
          w3 = (if signOut_throws bk
                then w2\<lparr>errorSignal := Some ''Failed to sign out. Please try again.'',
                        profileSignal := None,
                        navigations := navigations w2 @ [''/auth/login'']\<rparr>
                else w2\<lparr>profileSignal := None,
                        navigations := navigations w2 @ [''/auth/login'']\<rparr>)
      in w3\<lparr>loadingSignal := False\<rparr>)"

text \<open>
  \<^verbatim>\<open>updateProfile\<close>, subscribed to. \<^verbatim>\<open>!userId\<close> holds for a null profile and for a
  profile whose id is the empty string.
\<close>

definition updateProfile :: "Backend \<Rightarrow> ProfilePartial \<Rightarrow> World \<Rightarrow> bool \<times> World" where
  "updateProfile bk updates w =
     (case map_option profile_id (profileSignal w) of
        None \<Rightarrow> (False, w\<lparr>errorSignal := Some ''No user logged in''\<rparr>)
      | Some userId \<Rightarrow>
          if userId = [] then (False, w\<lparr>errorSignal := Some ''No user logged in''\<rparr>)
          else
            (let w1 = w\<lparr>loadingSignal := True\<rparr>;
                 w2 = w1\<lparr>sdk_requests := sdk_requests w1 @ [ProfilesUpdate updates userId]\<rparr>;
                 (result, w3) =
                   (case profiles_update bk updates userId of
                      Rejected _ \<Rightarrow> (False, w2\<lparr>errorSignal := Some ''Failed to update profile''\<rparr>)
                    | Resolved e \<Rightarrow>
                        (case e of
                           Some _ \<Rightarrow>
                             (False, w2\<lparr>errorSignal := Some ''Failed to update profile''\<rparr>)
                         | None \<Rightarrow> (True, fetchProfile bk userId w2)))
             in (result, w3\<lparr>loadingSignal := False\<rparr>)))"

section \<open>SupabaseService (core/services/supabase.service.ts)\<close>

record Session =
  session_user :: User

text \<open>\<^verbatim>\<open>session?.user ?? null\<close>.\<close>

definition user_of_session :: "Session option \<Rightarrow> User option" where
  "user_of_session session = map_option session_user session"

text \<open>
  What a subscriber of \<^verbatim>\<open>currentUser$\<close> receives: the initial null of the
  \<^verbatim>\<open>BehaviorSubject\<close>, the user of the session returned by \<^verbatim>\<open>getSession\<close>, then the
  user of every session passed to the \<^verbatim>\<open>onAuthStateChange\<close> callback.
\<close>

definition initAuthListener :: "Session option \<Rightarrow> Session option list \<Rightarrow> User option list" where
  "initAuthListener initial changes = None # map user_of_session (initial # changes)"

section \<open>Forms of the login and registration pages\<close>

text \<open>
  The validators named by the two \<^verbatim>\<open>initializeForm\<close> methods belong to the UI framework.
  Their meaning on the string value of a text input follows the framework's documented
  behaviour: \<^verbatim>\<open>required\<close> rejects the empty value, \<^verbatim>\<open>minLength(n)\<close> and \<^verbatim>\<open>email\<close> accept
  the empty value and otherwise test the length and the address pattern. The pattern
  itself is the parameter \<open>wellFormed\<close>.
\<close>

datatype Validator = Required | MinLength nat | Email

record 'a FormControl =
  cvalue :: 'a
  validators :: "Validator list"
  touched :: bool

fun validator_ok :: "(string \<Rightarrow> bool) \<Rightarrow> Validator \<Rightarrow> string \<Rightarrow> bool" where
  "validator_ok wellFormed Required v = (v \<noteq> [])"
| "validator_ok wellFormed (MinLength n) v = (v = [] \<or> n \<le> length v)"
| "validator_ok wellFormed Email v = (v = [] \<or> wellFormed v)"

definition control_valid :: "(string \<Rightarrow> bool) \<Rightarrow> string FormControl \<Rightarrow> bool" where
  "control_valid wellFormed c =
     list_all (\<lambda>v. validator_ok wellFormed v (cvalue c)) (validators c)"

type_synonym ValidationErrors = "(string \<times> bool) list"

text \<open>
  \<^verbatim>\<open>passwordMatchValidator\<close> (the same in both versions of the registration page). Its
  argument is the \<^verbatim>\<open>get\<close> method of the control it is given: the child of that name, or
  null.
\<close>

definition passwordMatchValidator ::
  "(string \<Rightarrow> string FormControl option) \<Rightarrow> ValidationErrors option" where
  "passwordMatchValidator get =
     (case get ''password'' of
        None \<Rightarrow> None
      | Some password \<Rightarrow>
          (case get ''confirmPassword'' of
             None \<Rightarrow> None
           | Some confirmPassword \<Rightarrow>
               if cvalue password = cvalue confirmPassword then None
               else Some [(''passwordMismatch'', True)]))"

subsection \<open>The login form\<close>

record LoginForm =
  login_email :: "string FormControl"
  login_password :: "string FormControl"
  rememberMe :: "bool FormControl"
  loginForm_touched :: bool

definition LoginComponent_initializeForm :: LoginForm where
  "LoginComponent_initializeForm =
     \<lparr>login_email = \<lparr>cvalue = [], validators = [Required, Email], touched = False\<rparr>,
      login_password =
        \<lparr>cvalue = [], validators = [Required, MinLength 6], touched = False\<rparr>,
      rememberMe = \<lparr>cvalue = False, validators = [], touched = False\<rparr>,
      loginForm_touched = False\<rparr>"

text \<open>\<^verbatim>\<open>loginForm.invalid\<close>: some control fails a validator of its own. The check box
  \<^verbatim>\<open>rememberMe\<close> is declared without validators.\<close>

definition loginForm_invalid :: "(string \<Rightarrow> bool) \<Rightarrow> LoginForm \<Rightarrow> bool" where
  "loginForm_invalid wellFormed f =
     (\<not> (control_valid wellFormed (login_email f) \<and>
         control_valid wellFormed (login_password f)))"

definition loginForm_markAllAsTouched :: "LoginForm \<Rightarrow> LoginForm" where
  "loginForm_markAllAsTouched f =
     f\<lparr>login_email := (login_email f)\<lparr>touched := True\<rparr>,
       login_password := (login_password f)\<lparr>touched := True\<rparr>,
       rememberMe := (rememberMe f)\<lparr>touched := True\<rparr>,
       loginForm_touched := True\<rparr>"

subsection \<open>The registration form\<close>

record RegisterForm =
  fullName :: "string FormControl"
  email :: "string FormControl"
  password :: "string FormControl"
  confirmPassword :: "string FormControl"
  registerForm_touched :: bool

definition RegisterComponent_initializeForm :: RegisterForm where
  "RegisterComponent_initializeForm =
     \<lparr>fullName = \<lparr>cvalue = [], validators = [Required, MinLength 2], touched = False\<rparr>,
      email = \<lparr>cvalue = [], validators = [Required, Email], touched = False\<rparr>,
      password = \<lparr>cvalue = [], validators = [Required, MinLength 6], touched = False\<rparr>,
      confirmPassword = \<lparr>cvalue = [], validators = [Required], touched = False\<rparr>,
      registerForm_touched = False\<rparr>"

text \<open>\<^verbatim>\<open>registerForm.get(name)\<close>.\<close>

definition registerForm_get :: "RegisterForm \<Rightarrow> string \<Rightarrow> string FormControl option" where
  "registerForm_get f name =
     (if name = ''fullName'' then Some (fullName f)
      else if name = ''email'' then Some (email f)
      else if name = ''password'' then Some (password f)
      else if name = ''confirmPassword'' then Some (confirmPassword f)
      else None)"

text \<open>\<^verbatim>\<open>registerForm.invalid\<close>: some control fails a validator of its own, or the
  validator of the group, \<^verbatim>\<open>passwordMatchValidator\<close>, returns errors.\<close>

definition registerForm_invalid :: "(string \<Rightarrow> bool) \<Rightarrow> RegisterForm \<Rightarrow> bool" where
  "registerForm_invalid wellFormed f =
     (\<not> (control_valid wellFormed (fullName f) \<and>
         control_valid wellFormed (email f) \<and>
         control_valid wellFormed (password f) \<and>
         control_valid wellFormed (confirmPassword f) \<and>
         passwordMatchValidator (registerForm_get f) = None))"

definition registerForm_markAllAsTouched :: "RegisterForm \<Rightarrow> RegisterForm" where
  "registerForm_markAllAsTouched f =
     f\<lparr>fullName := (fullName f)\<lparr>touched := True\<rparr>,
       email := (email f)\<lparr>touched := True\<rparr>,
       password := (password f)\<lparr>touched := True\<rparr>,
       confirmPassword := (confirmPassword f)\<lparr>touched := True\<rparr>,
       registerForm_touched := True\<rparr>"

text \<open>The user typing into the four inputs of the registration page.\<close>

definition registerForm_input ::
  "string \<Rightarrow> string \<Rightarrow> string \<Rightarrow> string \<Rightarrow> RegisterForm \<Rightarrow> RegisterForm" where
  "registerForm_input n e p c f =
     f\<lparr>fullName := (fullName f)\<lparr>cvalue := n\<rparr>,
       email := (email f)\<lparr>cvalue := e\<rparr>,
       password := (password f)\<lparr>cvalue := p\<rparr>,
       confirmPassword := (confirmPassword f)\<lparr>cvalue := c\<rparr>\<rparr>"

section \<open>LoginComponent and RegisterComponent\<close>

text \<open>The login page that handles the response of \<^verbatim>\<open>signIn\<close> itself.\<close>

record LoginComponent =
  loginForm :: LoginForm
  isLoading :: bool
  errorMessage :: "string option"
  hidePassword :: bool

text \<open>
  The \<^verbatim>\<open>next\<close> callback that \<^verbatim>\<open>LoginComponent.onSubmit\<close> subscribes with. The
  \<^verbatim>\<open>error\<close> callback is not reached: the \<^verbatim>\<open>catchError\<close> stage of \<^verbatim>\<open>signIn\<close> turns every
  rejection into a response.
\<close>

definition LoginComponent_next ::
  "AuthResponse \<Rightarrow> LoginComponent \<times> World \<Rightarrow> LoginComponent \<times> World" where
  "LoginComponent_next response s =
     (case s of (c, w) \<Rightarrow>
        if success response
        then (c, w\<lparr>navigations := navigations w @ [''/dashboard'']\<rparr>)
        else (c\<lparr>errorMessage :=
                   Some (js_or (error response) ''Sign in failed. Please try again.''),
                 isLoading := False\<rparr>, w))"

definition LoginComponent_onSubmit ::
  "(string \<Rightarrow> bool) \<Rightarrow> Backend \<Rightarrow> LoginComponent \<times> World \<Rightarrow> LoginComponent \<times> World" where
  "LoginComponent_onSubmit wellFormed bk s =
     (case s of (c, w) \<Rightarrow>
        if loginForm_invalid wellFormed (loginForm c)
        then (c\<lparr>loginForm := loginForm_markAllAsTouched (loginForm c)\<rparr>, w)
        else
          (let c1 = c\<lparr>isLoading := True, errorMessage := None\<rparr>;
               credentials = \<lparr>signin_email = cvalue (login_email (loginForm c1)),
                               signin_password = cvalue (login_password (loginForm c1))\<rparr>;
               (response, w1) = signIn bk credentials w
           in LoginComponent_next response (c1, w1)))"

text \<open>The registration page of \<^verbatim>\<open>register.component.ts\<close>, which shows the signals of
  AuthService and leaves its \<^verbatim>\<open>next\<close> callback empty.\<close>

record RegisterComponent =
  registerForm :: RegisterForm
  register_hidePassword :: bool
  hideConfirmPassword :: bool

definition RegisterComponent_onSubmit ::
  "(string \<Rightarrow> bool) \<Rightarrow> Backend \<Rightarrow> RegisterComponent \<times> World \<Rightarrow> RegisterComponent \<times> World" where
  "RegisterComponent_onSubmit wellFormed bk s =
     (case s of (c, w) \<Rightarrow>
        if registerForm_invalid wellFormed (registerForm c)
        then (c\<lparr>registerForm := registerForm_markAllAsTouched (registerForm c)\<rparr>, w)
        else
          (let w1 = clearError w;
               signUpData = \<lparr>signup_email = cvalue (email (registerForm c)),
                              signup_password = cvalue (password (registerForm c)),
                              signup_full_name = cvalue (fullName (registerForm c)),
                              signup_role = None\<rparr>;
               (response, w2) = signUp bk signUpData w1
           in (c, w2)))"

section \<open>Declared field types of the entity and update-request interfaces\<close>

text \<open>
  \<^verbatim>\<open>task.interface.ts\<close> and \<^verbatim>\<open>column.interface.ts\<close> declare types only. Each interface
  is the list of its fields as written: the name, whether the field is optional
  (\<^verbatim>\<open>?\<close>), and the declared type.
\<close>

datatype ts_type = T_string | T_number | T_TaskPriority | T_or_null ts_type

type_synonym ts_interface = "(string \<times> bool \<times> ts_type) list"

definition Task :: ts_interface where
  "Task =
    [(''id'', False, T_string),
     (''board_id'', False, T_string),
     (''column_id'', False, T_string),
     (''title'', False, T_string),
     (''description'', False, T_or_null T_string),
     (''assigned_to'', False, T_or_null T_string),
     (''position'', False, T_number),
     (''priority'', False, T_TaskPriority),
     (''due_date'', False, T_or_null T_string),
     (''created_by'', False, T_string),
     (''created_at'', False, T_string),
     (''updated_at'', False, T_string)]"

definition UpdateTaskRequest :: ts_interface where
  "UpdateTaskRequest =
    [(''title'', True, T_string),
     (''description'', True, T_string),
     (''assigned_to'', True, T_string),
     (''column_id'', True, T_string),
     (''position'', True, T_string),
     (''priority'', True, T_TaskPriority),
     (''due_date'', True, T_or_null T_string)]"

definition Column :: ts_interface where
  "Column =
    [(''id'', False, T_string),
     (''board_id'', False, T_string),
     (''name'', False, T_string),
     (''position'', False, T_number),
     (''created_at'', False, T_string),
     (''updated_at'', False, T_string)]"

definition UpdateColumnRequest :: ts_interface where
  "UpdateColumnRequest =
    [(''name'', True, T_string),
     (''position'', True, T_string)]"

text \<open>The declared type of a field with \<^verbatim>\<open>| null\<close> removed: the type up to optionality.\<close>

fun base_type :: "ts_type \<Rightarrow> ts_type" where
  "base_type (T_or_null t) = base_type t"
| "base_type t = t"

definition field_type :: "ts_interface \<Rightarrow> string \<Rightarrow> ts_type option" where
  "field_type i name = map_option (\<lambda>(opt, t). base_type t) (map_of i name)"

text \<open>The fields of an update request that its entity declares too, with another type.\<close>

definition mismatched_fields :: "ts_interface \<Rightarrow> ts_interface \<Rightarrow> string list" where
  "mismatched_fields upd entity =
     filter (\<lambda>name. field_type entity name \<noteq> None \<and>
                     field_type entity name \<noteq> field_type upd name)
       (map fst upd)"

section \<open>Requests that follow the first call of an operation\<close>

text \<open>
  The profile fetch that \<open>signUp\<close> and \<open>signIn\<close> issue after the authentication call:
  one \<^verbatim>\<open>select\<close> for the user of a reply that resolved without error, none otherwise.
\<close>

definition fetch_after_auth :: "AuthResult promise \<Rightarrow> request list" where
  "fetch_after_auth reply =
     (case reply of
        Rejected _ \<Rightarrow> []
      | Resolved res \<Rightarrow>
          (case auth_error res of
             Some _ \<Rightarrow> []
           | None \<Rightarrow>
               (case data_user res of
                  None \<Rightarrow> []
                | Some u \<Rightarrow> [ProfilesSelectSingle (user_id u)])))"

text \<open>The profile fetch that \<open>updateProfile\<close> issues after an update that resolved without
  error.\<close>

definition fetch_after_update :: "string option promise \<Rightarrow> string \<Rightarrow> request list" where
  "fetch_after_update reply userId =
     (if reply = Resolved None then [ProfilesSelectSingle userId] else [])"

section \<open>Requests of the subscriber to the user stream\<close>

text \<open>The profile fetch that the subscriber installed by \<^verbatim>\<open>initializeAuth\<close> issues on one
  emission of \<^verbatim>\<open>currentUser$\<close>: one \<^verbatim>\<open>select\<close> for a user, none for null.\<close>

definition emission_fetch :: "User option \<Rightarrow> request list" where
  "emission_fetch user =
     (case user of None \<Rightarrow> [] | Some u \<Rightarrow> [ProfilesSelectSingle (user_id u)])"

text \<open>The subscriber run on a sequence of emissions, each with the backend as it answers
  at that moment.\<close>

fun initializeAuth_subscription :: "(Backend \<times> User option) list \<Rightarrow> World \<Rightarrow> World" where
  "initializeAuth_subscription [] w = w"
| "initializeAuth_subscription ((bk, user) # rest) w =
     initializeAuth_subscription rest (initializeAuth_next bk user w)"

section \<open>Initial state and sample inputs\<close>

text \<open>The initial values of the three signals; nothing navigated to or requested yet.\<close>

definition World_init :: World where
  "World_init =
     \<lparr>profileSignal = None, loadingSignal = False, errorSignal = None,
      navigations = [], sdk_requests = []\<rparr>"

text \<open>The field initialisers of LoginComponent, after \<^verbatim>\<open>ngOnInit\<close>.\<close>

definition LoginComponent_init :: LoginComponent where
  "LoginComponent_init =
     \<lparr>loginForm = LoginComponent_initializeForm, isLoading = False,
      errorMessage = None, hidePassword = True\<rparr>"

text \<open>The field initialisers of RegisterComponent, after \<^verbatim>\<open>ngOnInit\<close>.\<close>

definition RegisterComponent_init :: RegisterComponent where
  "RegisterComponent_init =
     \<lparr>registerForm = RegisterComponent_initializeForm, register_hidePassword = True,
      hideConfirmPassword = True\<rparr>"

definition sample_profile :: Profile where
  "sample_profile =
     \<lparr>profile_id = ''u1'', profile_email = ''ann@example.com'', full_name = Some ''Ann'',
      avatar_url = None, role = ADMIN, created_at = ''2024-01-01T00:00:00Z'',
      updated_at = ''2024-01-01T00:00:00Z''\<rparr>"

text \<open>A backend on which every call succeeds, for the user \<open>u1\<close>.\<close>

definition backend_accepting :: Backend where
  "backend_accepting =
     \<lparr>auth_signUp = (\<lambda>e p n r. Resolved \<lparr>data_user = Some \<lparr>user_id = ''u1''\<rparr>,
                                            auth_error = None\<rparr>),
      auth_signInWithPassword = (\<lambda>e p. Resolved \<lparr>data_user = Some \<lparr>user_id = ''u1''\<rparr>,
                                                    auth_error = None\<rparr>),
      auth_signOut = Resolved None,
      profiles_select_single =
        (\<lambda>i. Resolved \<lparr>select_data = Some sample_profile, select_error = None\<rparr>),
      profiles_update = (\<lambda>u i. Resolved None)\<rparr>"

text \<open>A backend that answers every call with an error object.\<close>

definition backend_refusing :: Backend where
  "backend_refusing =
     \<lparr>auth_signUp = (\<lambda>e p n r. Resolved \<lparr>data_user = None,
                                            auth_error = Some ''User already registered''\<rparr>),
      auth_signInWithPassword =
        (\<lambda>e p. Resolved \<lparr>data_user = None,
                            auth_error = Some ''Invalid login credentials''\<rparr>),
      auth_signOut = Resolved (Some ''session missing''),
      profiles_select_single =
        (\<lambda>i. Resolved \<lparr>select_data = None, select_error = Some ''no rows''\<rparr>),
      profiles_update = (\<lambda>u i. Resolved (Some ''permission denied''))\<rparr>"

definition sample_signIn :: SignInRequest where
  "sample_signIn = \<lparr>signin_email = ''ann@example.com'', signin_password = ''secret1''\<rparr>"

definition sample_signUp :: SignUpRequest where
  "sample_signUp =
     \<lparr>signup_email = ''ann@example.com'', signup_password = ''secret1'',
      signup_full_name = ''Ann'', signup_role = None\<rparr>"

text \<open>A state in which every signal and both logs differ from their initial values.\<close>

definition sample_world :: World where
  "sample_world =
     \<lparr>profileSignal = Some sample_profile, loadingSignal = True,
      errorSignal = Some ''Failed to update profile'',
      navigations = [''/dashboard''],
      sdk_requests = [AuthSignInWithPassword ''ann@example.com'' ''secret1'',
                      ProfilesSelectSingle ''u1'']\<rparr>"

text \<open>A login page with an address lacking its \<open>@\<close>, a password of three characters,
  the box ticked, a message on display, and no control touched yet.\<close>

definition sample_login :: LoginComponent where
  "sample_login =
     \<lparr>loginForm =
        \<lparr>login_email =
           \<lparr>cvalue = ''ann'', validators = [Required, Email], touched = False\<rparr>,
         login_password =
           \<lparr>cvalue = ''abc'', validators = [Required, MinLength 6], touched = False\<rparr>,
         rememberMe = \<lparr>cvalue = True, validators = [], touched = False\<rparr>,
         loginForm_touched = False\<rparr>,
      isLoading = True,
      errorMessage = Some ''Email not confirmed'',
      hidePassword = False\<rparr>"

text \<open>A registration page whose two passwords differ, with no control touched yet.\<close>

definition sample_register :: RegisterComponent where
  "sample_register =
     \<lparr>registerForm =
        registerForm_input ''Ann'' ''ann@example.com'' ''secret1'' ''secret2''
          RegisterComponent_initializeForm,
      register_hidePassword = False,
      hideConfirmPassword = True\<rparr>"

section \<open>Properties of the error remapping\<close>

lemma str_includes_iff: "str_includes s key \<longleftrightarrow> (\<exists>ps ss. s = ps @ key @ ss)"
  by (simp add: str_includes_def sublist_def)

lemma formatAuthError_loop_none:
  "\<forall>kv \<in> set m. \<not> str_includes e (fst kv) \<Longrightarrow> formatAuthError_loop m e = e"
  by (induction m e rule: formatAuthError_loop.induct) auto

lemma formatAuthError_loop_first:
  "i < length m \<Longrightarrow> str_includes e (fst (m ! i)) \<Longrightarrow>
   \<forall>j < i. \<not> str_includes e (fst (m ! j)) \<Longrightarrow>
   formatAuthError_loop m e = snd (m ! i)"
proof (induction m e arbitrary: i rule: formatAuthError_loop.induct)
  case (1 err)
  then show ?case by simp
next
  case (2 key val rest err)
  show ?case
  proof (cases i)
    case 0
    with 2 show ?thesis by simp
  next
    case (Suc n)
    with 2 have miss: "\<not> str_includes err key" by fastforce
    from 2 Suc have "n < length rest" "str_includes err (fst (rest ! n))" by auto
    moreover from 2 Suc have "\<forall>j < n. \<not> str_includes err (fst (rest ! j))" by fastforce
    ultimately have "formatAuthError_loop rest err = snd (rest ! n)"
      using 2 miss by blast
    with miss Suc show ?thesis by simp
  qed
qed

text \<open>
  Claim C2. The map has seven entries, the entry \<open>Invalid login credentials\<close> is mapped to
  \<open>Invalid email or password. Please try again.\<close>; an error string that contains the key
  of entry \<open>i\<close> and the key of no earlier entry is replaced by the message of entry \<open>i\<close>,
  and an error string that contains no key of the map is returned unchanged.
\<close>

theorem formatAuthError_first_known_pattern:
  "length errorMap = 7 \<and>
   map_of errorMap ''Invalid login credentials'' =
     Some ''Invalid email or password. Please try again.'' \<and>
   (i < length errorMap \<and> (\<exists>ps ss. e = ps @ fst (errorMap ! i) @ ss) \<and>
      (\<forall>j < i. \<not> (\<exists>ps ss. e = ps @ fst (errorMap ! j) @ ss))
      \<longrightarrow> formatAuthError e = snd (errorMap ! i)) \<and>
   ((\<forall>key \<in> fst ` set errorMap. \<not> (\<exists>ps ss. e = ps @ key @ ss))
      \<longrightarrow> formatAuthError e = e)"
proof -
  have "length errorMap = 7"
    by (simp add: errorMap_def)
  moreover have "map_of errorMap ''Invalid login credentials'' =
      Some ''Invalid email or password. Please try again.''"
    by (simp add: errorMap_def)
  moreover have "formatAuthError e = snd (errorMap ! i)"
    if "i < length errorMap" "\<exists>ps ss. e = ps @ fst (errorMap ! i) @ ss"
       "\<forall>j < i. \<not> (\<exists>ps ss. e = ps @ fst (errorMap ! j) @ ss)"
    unfolding formatAuthError_def
    using that by (intro formatAuthError_loop_first) (simp_all add: str_includes_iff)
  moreover have "formatAuthError e = e"
    if "\<forall>key \<in> fst ` set errorMap. \<not> (\<exists>ps ss. e = ps @ key @ ss)"
    unfolding formatAuthError_def
    using that by (intro formatAuthError_loop_none) (simp add: str_includes_iff)
  ultimately show ?thesis by blast
qed

theorem formatAuthError_first_known_pattern_witness:
  "formatAuthError ''AuthApiError: Email not confirmed'' =
     ''Please verify your email address before signing in.'' \<and>
   formatAuthError ''Failed to fetch'' = ''Failed to fetch''"
proof -
  have "str_includes ''AuthApiError: Email not confirmed'' (fst (errorMap ! 1))"
    by code_simp
  then have a1: "\<exists>ps ss. ''AuthApiError: Email not confirmed'' = ps @ fst (errorMap ! 1) @ ss"
    by (simp only: str_includes_iff)
  have "\<not> str_includes ''AuthApiError: Email not confirmed'' (fst (errorMap ! 0))"
    by code_simp
  then have a2: "\<forall>j < (1::nat). \<not> (\<exists>ps ss.
      ''AuthApiError: Email not confirmed'' = ps @ fst (errorMap ! j) @ ss)"
    by (simp only: str_includes_iff less_one simp_thms)
  have a3: "(1::nat) < length errorMap"
    by code_simp
  have "\<forall>key \<in> fst ` set errorMap. \<not> str_includes ''Failed to fetch'' key"
    by code_simp
  then have b: "\<forall>key \<in> fst ` set errorMap. \<not> (\<exists>ps ss. ''Failed to fetch'' = ps @ key @ ss)"
    by (simp only: str_includes_iff)
  from a1 a2 a3
    formatAuthError_first_known_pattern [of 1 "''AuthApiError: Email not confirmed''"]
  have "formatAuthError ''AuthApiError: Email not confirmed'' = snd (errorMap ! 1)"
    by blast
  moreover from b formatAuthError_first_known_pattern [of 0 "''Failed to fetch''"]
  have "formatAuthError ''Failed to fetch'' = ''Failed to fetch''"
    by blast
  moreover have "snd (errorMap ! 1) = ''Please verify your email address before signing in.''"
    by code_simp
  ultimately show ?thesis by simp
qed

section \<open>Properties of the user stream\<close>

lemma initAuthListener_emissions:
  "initAuthListener initial changes ! 0 = None \<and>
   length (initAuthListener initial changes) = length changes + 2 \<and>
   set (initAuthListener initial changes) =
     insert None (user_of_session ` set (initial # changes))"
  by (simp add: initAuthListener_def)

section \<open>Properties of AuthService\<close>

text \<open>
  Claim C10. In every state of the profile signal, \<open>isAdmin\<close> implies
  \<open>isAuthenticated\<close>: when the role of the cached profile is \<open>ADMIN\<close>, the profile is not
  null. The earlier version of the service computes both from \<^verbatim>\<open>currentProfile\<close> by the
  same two expressions.
\<close>

theorem isAdmin_implies_isAuthenticated:
  "isAdmin w \<longrightarrow> profileSignal w \<noteq> None \<and> isAuthenticated w"
  by (auto simp: isAdmin_def isAuthenticated_def)

theorem isAdmin_implies_isAuthenticated_witness:
  "isAdmin (World_init\<lparr>profileSignal := Some sample_profile\<rparr>) \<and>
   profileSignal (World_init\<lparr>profileSignal := Some sample_profile\<rparr>) \<noteq> None \<and>
   isAuthenticated (World_init\<lparr>profileSignal := Some sample_profile\<rparr>)"
proof -
  have "isAdmin (World_init\<lparr>profileSignal := Some sample_profile\<rparr>)"
    by (simp add: isAdmin_def sample_profile_def)
  with isAdmin_implies_isAuthenticated [of "World_init\<lparr>profileSignal := Some sample_profile\<rparr>"]
  show ?thesis by blast
qed

text \<open>
  Claim C9. Whatever the backend answers to the sign-out call, \<open>signOut\<close> returns with
  the profile signal null, one navigation to \<open>/auth/login\<close> added, and the loading signal
  false; when the call is rejected or resolves with an error, the error signal holds
  \<open>Failed to sign out. Please try again.\<close>
\<close>

theorem signOut_clears_on_every_outcome:
  "profileSignal (signOut bk w) = None \<and>
   navigations (signOut bk w) = navigations w @ [''/auth/login''] \<and>
   loadingSignal (signOut bk w) = False \<and>
   (auth_signOut bk \<noteq> Resolved None \<longrightarrow>
      errorSignal (signOut bk w) = Some ''Failed to sign out. Please try again.'')"
  by (cases "auth_signOut bk") (auto simp: signOut_def signOut_throws_def Let_def)

theorem signOut_clears_on_every_outcome_witness:
  "auth_signOut backend_refusing \<noteq> Resolved None \<and>
   profileSignal
     (signOut backend_refusing (World_init\<lparr>profileSignal := Some sample_profile\<rparr>)) = None \<and>
   navigations
     (signOut backend_refusing (World_init\<lparr>profileSignal := Some sample_profile\<rparr>)) =
     [''/auth/login''] \<and>
   loadingSignal
     (signOut backend_refusing (World_init\<lparr>profileSignal := Some sample_profile\<rparr>)) = False \<and>
   errorSignal
     (signOut backend_refusing (World_init\<lparr>profileSignal := Some sample_profile\<rparr>)) =
     Some ''Failed to sign out. Please try again.''"
proof -
  have h: "auth_signOut backend_refusing \<noteq> Resolved None"
    by (simp add: backend_refusing_def)
  have n: "navigations (World_init\<lparr>profileSignal := Some sample_profile\<rparr>) = []"
    by (simp add: World_init_def)
  from h n signOut_clears_on_every_outcome
    [of backend_refusing "World_init\<lparr>profileSignal := Some sample_profile\<rparr>"]
  show ?thesis by simp
qed

lemma signIn_cases:
  "(success (fst (signIn bk rq w)) \<and> error (fst (signIn bk rq w)) = None) \<or>
   (\<not> success (fst (signIn bk rq w)) \<and> error (fst (signIn bk rq w)) \<noteq> None \<and>
      profile (fst (signIn bk rq w)) = None)"
  by (simp add: signIn_def Let_def split: promise.split option.split prod.split)

lemma signUp_cases:
  "(success (fst (signUp bk rq w)) \<and> error (fst (signUp bk rq w)) = None) \<or>
   (\<not> success (fst (signUp bk rq w)) \<and> error (fst (signUp bk rq w)) \<noteq> None \<and>
      profile (fst (signUp bk rq w)) = None)"
  by (simp add: signUp_def Let_def split: promise.split option.split prod.split)

text \<open>
  Claim C4. The response emitted by \<open>signIn\<close> and by \<open>signUp\<close>: when \<open>success\<close> is false,
  \<open>error\<close> is not null and \<open>profile\<close> is null; when \<open>success\<close> is true, \<open>error\<close> is null.
\<close>

theorem auth_response_well_formed:
  "(\<not> success (fst (signIn bk rq w)) \<longrightarrow>
      error (fst (signIn bk rq w)) \<noteq> None \<and> profile (fst (signIn bk rq w)) = None) \<and>
   (success (fst (signIn bk rq w)) \<longrightarrow> error (fst (signIn bk rq w)) = None) \<and>
   (\<not> success (fst (signUp bk rq' w)) \<longrightarrow>
      error (fst (signUp bk rq' w)) \<noteq> None \<and> profile (fst (signUp bk rq' w)) = None) \<and>
   (success (fst (signUp bk rq' w)) \<longrightarrow> error (fst (signUp bk rq' w)) = None)"
  using signIn_cases [of bk rq w] signUp_cases [of bk rq' w] by blast

theorem auth_response_well_formed_witness:
  "\<not> success (fst (signIn backend_refusing sample_signIn World_init)) \<and>
   error (fst (signIn backend_refusing sample_signIn World_init)) \<noteq> None \<and>
   profile (fst (signIn backend_refusing sample_signIn World_init)) = None \<and>
   success (fst (signUp backend_accepting sample_signUp World_init)) \<and>
   error (fst (signUp backend_accepting sample_signUp World_init)) = None"
proof -
  have a: "\<not> success (fst (signIn backend_refusing sample_signIn World_init))"
    by (simp add: signIn_def backend_refusing_def Let_def)
  have b: "success (fst (signUp backend_accepting sample_signUp World_init))"
    by (simp add: signUp_def backend_accepting_def Let_def)
  from a auth_response_well_formed [of backend_refusing sample_signIn World_init]
  have "error (fst (signIn backend_refusing sample_signIn World_init)) \<noteq> None \<and>
        profile (fst (signIn backend_refusing sample_signIn World_init)) = None"
    by blast
  moreover from b auth_response_well_formed
    [where bk = backend_accepting and rq' = sample_signUp and w = World_init]
  have "error (fst (signUp backend_accepting sample_signUp World_init)) = None"
    by blast
  ultimately show ?thesis using a b by blast
qed

text \<open>
  Claim C3. One emission of \<^verbatim>\<open>currentUser$\<close>, handled by the subscriber of
  \<open>initializeAuth\<close>. A null user sets the profile signal to null, so \<open>isAuthenticated\<close> is
  false. A user \<open>u\<close> makes the service request the profile row of \<open>user_id u\<close>; a reply
  without error is stored in the profile signal, and a rejected call or a reply with an
  error sets the profile signal to null and the error signal to
  \<open>Failed to load user profile\<close>.
\<close>

theorem initializeAuth_mirrors_remote_user:
  "(user = None \<longrightarrow>
      profileSignal (initializeAuth_next bk user w) = None \<and>
      \<not> isAuthenticated (initializeAuth_next bk user w)) \<and>
   (\<forall>u. user = Some u \<longrightarrow>
      sdk_requests (initializeAuth_next bk user w) =
        sdk_requests w @ [ProfilesSelectSingle (user_id u)] \<and>
      (\<forall>r. profiles_select_single bk (user_id u) = Resolved r \<and> select_error r = None \<longrightarrow>
         profileSignal (initializeAuth_next bk user w) = select_data r) \<and>
      ((\<forall>r. profiles_select_single bk (user_id u) = Resolved r \<longrightarrow> select_error r \<noteq> None) \<longrightarrow>
         profileSignal (initializeAuth_next bk user w) = None \<and>
         errorSignal (initializeAuth_next bk user w) = Some ''Failed to load user profile''))"
  by (cases user; cases "profiles_select_single bk (user_id (the user))")
     (auto simp: initializeAuth_next_def isAuthenticated_def fetchProfile_def Let_def
           split: option.splits)

theorem initializeAuth_mirrors_remote_user_witness:
  "\<not> isAuthenticated
       (initializeAuth_next backend_accepting None
          (World_init\<lparr>profileSignal := Some sample_profile\<rparr>)) \<and>
   profileSignal
     (initializeAuth_next backend_accepting (Some \<lparr>user_id = ''u1''\<rparr>) World_init) =
     Some sample_profile \<and>
   profileSignal
     (initializeAuth_next backend_refusing (Some \<lparr>user_id = ''u1''\<rparr>) World_init) = None \<and>
   errorSignal
     (initializeAuth_next backend_refusing (Some \<lparr>user_id = ''u1''\<rparr>) World_init) =
     Some ''Failed to load user profile''"
proof -
  have a: "\<not> isAuthenticated
       (initializeAuth_next backend_accepting None
          (World_init\<lparr>profileSignal := Some sample_profile\<rparr>))"
    using initializeAuth_mirrors_remote_user
      [of None backend_accepting "World_init\<lparr>profileSignal := Some sample_profile\<rparr>"]
    by simp
  have "profiles_select_single backend_accepting (user_id \<lparr>user_id = ''u1''\<rparr>) =
          Resolved \<lparr>select_data = Some sample_profile, select_error = None\<rparr> \<and>
        select_error \<lparr>select_data = Some sample_profile, select_error = None\<rparr> = None"
    by (simp add: backend_accepting_def)
  with initializeAuth_mirrors_remote_user
    [of "Some \<lparr>user_id = ''u1''\<rparr>" backend_accepting World_init]
  have b: "profileSignal
      (initializeAuth_next backend_accepting (Some \<lparr>user_id = ''u1''\<rparr>) World_init) =
      select_data \<lparr>select_data = Some sample_profile, select_error = None\<rparr>"
    by blast
  have "\<forall>r. profiles_select_single backend_refusing (user_id \<lparr>user_id = ''u1''\<rparr>) =
          Resolved r \<longrightarrow> select_error r \<noteq> None"
    by (auto simp: backend_refusing_def)
  with initializeAuth_mirrors_remote_user
    [of "Some \<lparr>user_id = ''u1''\<rparr>" backend_refusing World_init]
  have c: "profileSignal
      (initializeAuth_next backend_refusing (Some \<lparr>user_id = ''u1''\<rparr>) World_init) = None \<and>
    errorSignal
      (initializeAuth_next backend_refusing (Some \<lparr>user_id = ''u1''\<rparr>) World_init) =
      Some ''Failed to load user profile''"
    by blast
  from a b c show ?thesis by simp
qed

lemma initializeAuth_next_requests:
  "sdk_requests (initializeAuth_next bk user w) = sdk_requests w @ emission_fetch user"
  by (simp add: initializeAuth_next_def emission_fetch_def fetchProfile_def Let_def
        split: option.split promise.split)

lemma initializeAuth_subscription_requests:
  "sdk_requests (initializeAuth_subscription es w) =
     sdk_requests w @ concat (map (\<lambda>(bk, user). emission_fetch user) es)"
proof (induction es arbitrary: w)
  case Nil
  show ?case by simp
next
  case (Cons e es)
  obtain bk user where e: "e = (bk, user)"
    by (cases e)
  show ?case
    by (simp add: e Cons.IH initializeAuth_next_requests)
qed

lemma signIn_requests:
  "sdk_requests (snd (signIn bk si w)) =
     sdk_requests w @
       AuthSignInWithPassword (signin_email si) (signin_password si) #
       fetch_after_auth (auth_signInWithPassword bk (signin_email si) (signin_password si))"
  by (simp add: signIn_def fetch_after_auth_def fetchProfile_def Let_def
        split: promise.split option.split)

lemma signUp_requests:
  "sdk_requests (snd (signUp bk su w)) =
     sdk_requests w @
       AuthSignUp (signup_email su) (signup_password su) (signup_full_name su)
         (case signup_role su of Some x \<Rightarrow> x | None \<Rightarrow> MEMBER) #
       fetch_after_auth
         (auth_signUp bk (signup_email su) (signup_password su) (signup_full_name su)
            (case signup_role su of Some x \<Rightarrow> x | None \<Rightarrow> MEMBER))"
  by (simp add: signUp_def fetch_after_auth_def fetchProfile_def Let_def
        split: promise.split option.split)

lemma updateProfile_requests:
  "sdk_requests (snd (updateProfile bk updates w)) =
     sdk_requests w @
       (case profileSignal w of
          None \<Rightarrow> []
        | Some p \<Rightarrow>
            if profile_id p = [] then []
            else ProfilesUpdate updates (profile_id p) #
                 fetch_after_update (profiles_update bk updates (profile_id p)) (profile_id p))"
  by (simp add: updateProfile_def fetch_after_update_def fetchProfile_def Let_def
        split: promise.split option.split)

text \<open>
  Claim C1, as amended. A user action is not limited to one backend request. The
  pipeline of an operation issues at most two, in this order: \<open>signOut\<close> exactly one;
  \<open>signUp\<close> and \<open>signIn\<close> the authentication request, then one profile fetch exactly
  when the authentication reply resolves without error and with a user; \<open>updateProfile\<close>
  nothing when no profile with a non-empty id is cached, otherwise the update, then one
  profile fetch exactly when the update resolves without error. Besides the pipeline,
  the subscriber that the service keeps on \<^verbatim>\<open>currentUser$\<close> issues one further profile
  fetch for every emission that carries a user, and none for a null emission. So a
  sign-in that the backend accepts, together with one emission of the signed-in user,
  sends three requests; the same operation followed by any emissions sends those of
  its pipeline and one fetch per emitted user.
\<close>

theorem auth_operations_requests:
  "sdk_requests (snd (signUp bk su w)) =
     sdk_requests w @
       AuthSignUp (signup_email su) (signup_password su) (signup_full_name su)
         (case signup_role su of Some x \<Rightarrow> x | None \<Rightarrow> MEMBER) #
       fetch_after_auth
         (auth_signUp bk (signup_email su) (signup_password su) (signup_full_name su)
            (case signup_role su of Some x \<Rightarrow> x | None \<Rightarrow> MEMBER)) \<and>
   sdk_requests (snd (signIn bk si w)) =
     sdk_requests w @
       AuthSignInWithPassword (signin_email si) (signin_password si) #
       fetch_after_auth (auth_signInWithPassword bk (signin_email si) (signin_password si)) \<and>
   sdk_requests (signOut bk w) = sdk_requests w @ [AuthSignOut] \<and>
   sdk_requests (snd (updateProfile bk updates w)) =
     sdk_requests w @
       (case profileSignal w of
          None \<Rightarrow> []
        | Some p \<Rightarrow>
            if profile_id p = [] then []
            else ProfilesUpdate updates (profile_id p) #
                 fetch_after_update (profiles_update bk updates (profile_id p)) (profile_id p)) \<and>
   length (fetch_after_auth reply) \<le> 1 \<and>
   length (fetch_after_update reply' userId) \<le> 1 \<and>
   sdk_requests (initializeAuth_next bk' user w) = sdk_requests w @ emission_fetch user \<and>
   length (emission_fetch user) = (if user = None then 0 else 1) \<and>
   sdk_requests (initializeAuth_subscription es (snd (signUp bk su w))) =
     sdk_requests (snd (signUp bk su w)) @
       concat (map (\<lambda>(b, emitted). emission_fetch emitted) es) \<and>
   sdk_requests (initializeAuth_subscription es (snd (signIn bk si w))) =
     sdk_requests (snd (signIn bk si w)) @
       concat (map (\<lambda>(b, emitted). emission_fetch emitted) es) \<and>
   sdk_requests (initializeAuth_subscription es (signOut bk w)) =
     sdk_requests (signOut bk w) @
       concat (map (\<lambda>(b, emitted). emission_fetch emitted) es) \<and>
   (auth_signInWithPassword bk (signin_email si) (signin_password si) = Resolved res \<and>
    auth_error res = None \<and> data_user res = Some u \<longrightarrow>
      length (sdk_requests (initializeAuth_next bk' (Some u) (snd (signIn bk si w)))) =
        length (sdk_requests w) + 3 \<and>
      sdk_requests (initializeAuth_next bk' (Some u) (snd (signIn bk si w))) =
        sdk_requests w @
          [AuthSignInWithPassword (signin_email si) (signin_password si),
           ProfilesSelectSingle (user_id u), ProfilesSelectSingle (user_id u)])"
proof -
  have three: "sdk_requests (initializeAuth_next bk' (Some u) (snd (signIn bk si w))) =
        sdk_requests w @
          [AuthSignInWithPassword (signin_email si) (signin_password si),
           ProfilesSelectSingle (user_id u), ProfilesSelectSingle (user_id u)]"
    if "auth_signInWithPassword bk (signin_email si) (signin_password si) = Resolved res \<and>
        auth_error res = None \<and> data_user res = Some u"
    using that
    by (simp add: initializeAuth_next_requests signIn_requests emission_fetch_def
          fetch_after_auth_def)
  have count: "length (sdk_requests (initializeAuth_next bk' (Some u) (snd (signIn bk si w)))) =
        length (sdk_requests w) + 3"
    if "auth_signInWithPassword bk (signin_email si) (signin_password si) = Resolved res \<and>
        auth_error res = None \<and> data_user res = Some u"
    using three [OF that] by simp
  have a1: "length (fetch_after_auth reply) \<le> 1"
    by (simp add: fetch_after_auth_def split: promise.split option.split)
  have a2: "length (fetch_after_update reply' userId) \<le> 1"
    by (simp add: fetch_after_update_def)
  have a3: "sdk_requests (signOut bk w) = sdk_requests w @ [AuthSignOut]"
    by (simp add: signOut_def Let_def)
  have a4: "length (emission_fetch user) = (if user = None then 0 else 1)"
    by (simp add: emission_fetch_def split: option.split)
  show ?thesis
    by (intro conjI impI signUp_requests signIn_requests updateProfile_requests
          initializeAuth_next_requests initializeAuth_subscription_requests
          a1 a2 a3 a4)
       (blast intro: three count)+
qed

theorem auth_operations_requests_witness:
  "auth_signInWithPassword backend_accepting (signin_email sample_signIn)
       (signin_password sample_signIn) =
     Resolved \<lparr>data_user = Some \<lparr>user_id = ''u1''\<rparr>, auth_error = None\<rparr> \<and>
   sdk_requests
       (initializeAuth_next backend_accepting (Some \<lparr>user_id = ''u1''\<rparr>)
          (snd (signIn backend_accepting sample_signIn World_init))) =
     [AuthSignInWithPassword ''ann@example.com'' ''secret1'',
      ProfilesSelectSingle ''u1'', ProfilesSelectSingle ''u1'']"
proof -
  have r: "auth_signInWithPassword backend_accepting (signin_email sample_signIn)
       (signin_password sample_signIn) =
     Resolved \<lparr>data_user = Some \<lparr>user_id = ''u1''\<rparr>, auth_error = None\<rparr>"
    by (simp add: backend_accepting_def)
  have e: "auth_error \<lparr>data_user = Some \<lparr>user_id = ''u1''\<rparr>, auth_error = None\<rparr> = None"
    by simp
  have d: "data_user \<lparr>data_user = Some \<lparr>user_id = ''u1''\<rparr>, auth_error = None\<rparr> =
      Some \<lparr>user_id = ''u1''\<rparr>"
    by simp
  from r e d auth_operations_requests
    [where bk = backend_accepting and si = sample_signIn and w = World_init
       and bk' = backend_accepting and u = "\<lparr>user_id = ''u1''\<rparr>"
       and res = "\<lparr>data_user = Some \<lparr>user_id = ''u1''\<rparr>, auth_error = None\<rparr>"]
  have "sdk_requests
       (initializeAuth_next backend_accepting (Some \<lparr>user_id = ''u1''\<rparr>)
          (snd (signIn backend_accepting sample_signIn World_init))) =
     sdk_requests World_init @
       [AuthSignInWithPassword (signin_email sample_signIn) (signin_password sample_signIn),
        ProfilesSelectSingle (user_id \<lparr>user_id = ''u1''\<rparr>),
        ProfilesSelectSingle (user_id \<lparr>user_id = ''u1''\<rparr>)]"
    by blast
  with r show ?thesis
    by (simp add: World_init_def sample_signIn_def)
qed

text \<open>
  The claim as first stated, one request per operation, fails on a sign-in that the
  backend accepts: the authentication call is followed by the profile fetch.
\<close>

theorem signIn_two_requests_counterexample:
  "sdk_requests World_init = [] \<and>
   \<not> length (sdk_requests (snd (signIn backend_accepting sample_signIn World_init))) \<le> 1"
  by (simp add: signIn_def backend_accepting_def fetchProfile_def World_init_def Let_def)

section \<open>Properties of the login and registration pages\<close>

text \<open>
  Claim C8. Submitting the login form or the registration form while it is invalid marks
  the form and every one of its controls as touched and changes nothing else: the
  values and validators of the controls, the other fields of the component, the signals
  of AuthService, the navigations and the requests sent to the backend are what they
  were.
\<close>

theorem invalid_submit_only_marks_touched:
  "(loginForm_invalid wellFormed (loginForm lc) \<longrightarrow>
      LoginComponent_onSubmit wellFormed bk (lc, w) =
        (lc\<lparr>loginForm := loginForm_markAllAsTouched (loginForm lc)\<rparr>, w) \<and>
      snd (LoginComponent_onSubmit wellFormed bk (lc, w)) = w \<and>
      isLoading (fst (LoginComponent_onSubmit wellFormed bk (lc, w))) = isLoading lc \<and>
      errorMessage (fst (LoginComponent_onSubmit wellFormed bk (lc, w))) = errorMessage lc \<and>
      hidePassword (fst (LoginComponent_onSubmit wellFormed bk (lc, w))) = hidePassword lc \<and>
      loginForm (fst (LoginComponent_onSubmit wellFormed bk (lc, w))) =
        \<lparr>login_email = (login_email (loginForm lc))\<lparr>touched := True\<rparr>,
         login_password = (login_password (loginForm lc))\<lparr>touched := True\<rparr>,
         rememberMe = (rememberMe (loginForm lc))\<lparr>touched := True\<rparr>,
         loginForm_touched = True\<rparr>) \<and>
   (registerForm_invalid wellFormed (registerForm rc) \<longrightarrow>
      RegisterComponent_onSubmit wellFormed bk (rc, w) =
        (rc\<lparr>registerForm := registerForm_markAllAsTouched (registerForm rc)\<rparr>, w) \<and>
      snd (RegisterComponent_onSubmit wellFormed bk (rc, w)) = w \<and>
      register_hidePassword (fst (RegisterComponent_onSubmit wellFormed bk (rc, w))) =
        register_hidePassword rc \<and>
      hideConfirmPassword (fst (RegisterComponent_onSubmit wellFormed bk (rc, w))) =
        hideConfirmPassword rc \<and>
      registerForm (fst (RegisterComponent_onSubmit wellFormed bk (rc, w))) =
        \<lparr>fullName = (fullName (registerForm rc))\<lparr>touched := True\<rparr>,
         email = (email (registerForm rc))\<lparr>touched := True\<rparr>,
         password = (password (registerForm rc))\<lparr>touched := True\<rparr>,
         confirmPassword = (confirmPassword (registerForm rc))\<lparr>touched := True\<rparr>,
         registerForm_touched = True\<rparr>) \<and>
   touched (login_email (loginForm_markAllAsTouched lf)) \<and>
   touched (login_password (loginForm_markAllAsTouched lf)) \<and>
   touched (rememberMe (loginForm_markAllAsTouched lf)) \<and>
   loginForm_touched (loginForm_markAllAsTouched lf) \<and>
   touched (fullName (registerForm_markAllAsTouched rf)) \<and>
   touched (email (registerForm_markAllAsTouched rf)) \<and>
   touched (password (registerForm_markAllAsTouched rf)) \<and>
   touched (confirmPassword (registerForm_markAllAsTouched rf)) \<and>
   registerForm_touched (registerForm_markAllAsTouched rf) \<and>
   map cvalue [login_email (loginForm_markAllAsTouched lf),
               login_password (loginForm_markAllAsTouched lf)] =
     map cvalue [login_email lf, login_password lf] \<and>
   cvalue (rememberMe (loginForm_markAllAsTouched lf)) = cvalue (rememberMe lf) \<and>
   map cvalue [fullName (registerForm_markAllAsTouched rf),
               email (registerForm_markAllAsTouched rf),
               password (registerForm_markAllAsTouched rf),
               confirmPassword (registerForm_markAllAsTouched rf)] =
     map cvalue [fullName rf, email rf, password rf, confirmPassword rf] \<and>
   map validators [login_email (loginForm_markAllAsTouched lf),
                   login_password (loginForm_markAllAsTouched lf)] =
     map validators [login_email lf, login_password lf] \<and>
   validators (rememberMe (loginForm_markAllAsTouched lf)) = validators (rememberMe lf) \<and>
   map validators [fullName (registerForm_markAllAsTouched rf),
                   email (registerForm_markAllAsTouched rf),
                   password (registerForm_markAllAsTouched rf),
                   confirmPassword (registerForm_markAllAsTouched rf)] =
     map validators [fullName rf, email rf, password rf, confirmPassword rf]"
proof -
  have login: "LoginComponent_onSubmit wellFormed bk (lc, w) =
        (lc\<lparr>loginForm := loginForm_markAllAsTouched (loginForm lc)\<rparr>, w)"
    if "loginForm_invalid wellFormed (loginForm lc)"
    using that by (simp add: LoginComponent_onSubmit_def)
  have register: "RegisterComponent_onSubmit wellFormed bk (rc, w) =
        (rc\<lparr>registerForm := registerForm_markAllAsTouched (registerForm rc)\<rparr>, w)"
    if "registerForm_invalid wellFormed (registerForm rc)"
    using that by (simp add: RegisterComponent_onSubmit_def)
  have lform: "loginForm_markAllAsTouched (loginForm lc) =
        \<lparr>login_email = (login_email (loginForm lc))\<lparr>touched := True\<rparr>,
         login_password = (login_password (loginForm lc))\<lparr>touched := True\<rparr>,
         rememberMe = (rememberMe (loginForm lc))\<lparr>touched := True\<rparr>,
         loginForm_touched = True\<rparr>"
    by (simp add: loginForm_markAllAsTouched_def)
  have rform: "registerForm_markAllAsTouched (registerForm rc) =
        \<lparr>fullName = (fullName (registerForm rc))\<lparr>touched := True\<rparr>,
         email = (email (registerForm rc))\<lparr>touched := True\<rparr>,
         password = (password (registerForm rc))\<lparr>touched := True\<rparr>,
         confirmPassword = (confirmPassword (registerForm rc))\<lparr>touched := True\<rparr>,
         registerForm_touched = True\<rparr>"
    by (simp add: registerForm_markAllAsTouched_def)
  show ?thesis
    by (intro conjI impI)
       (simp_all add: login register lform rform
          loginForm_markAllAsTouched_def registerForm_markAllAsTouched_def)
qed

theorem invalid_submit_only_marks_touched_witness:
  "loginForm_invalid (\<lambda>s. CHR ''@'' \<in> set s) (loginForm sample_login) \<and>
   LoginComponent_onSubmit (\<lambda>s. CHR ''@'' \<in> set s) backend_accepting
       (sample_login, sample_world) =
     (\<lparr>loginForm =
         \<lparr>login_email =
            \<lparr>cvalue = ''ann'', validators = [Required, Email], touched = True\<rparr>,
          login_password =
            \<lparr>cvalue = ''abc'', validators = [Required, MinLength 6], touched = True\<rparr>,
          rememberMe = \<lparr>cvalue = True, validators = [], touched = True\<rparr>,
          loginForm_touched = True\<rparr>,
       isLoading = True,
       errorMessage = Some ''Email not confirmed'',
       hidePassword = False\<rparr>,
      \<lparr>profileSignal = Some sample_profile, loadingSignal = True,
       errorSignal = Some ''Failed to update profile'',
       navigations = [''/dashboard''],
       sdk_requests = [AuthSignInWithPassword ''ann@example.com'' ''secret1'',
                       ProfilesSelectSingle ''u1'']\<rparr>) \<and>
   registerForm_invalid (\<lambda>s. CHR ''@'' \<in> set s) (registerForm sample_register) \<and>
   RegisterComponent_onSubmit (\<lambda>s. CHR ''@'' \<in> set s) backend_accepting
       (sample_register, sample_world) =
     (\<lparr>registerForm =
         \<lparr>fullName =
            \<lparr>cvalue = ''Ann'', validators = [Required, MinLength 2], touched = True\<rparr>,
          email =
            \<lparr>cvalue = ''ann@example.com'', validators = [Required, Email],
             touched = True\<rparr>,
          password =
            \<lparr>cvalue = ''secret1'', validators = [Required, MinLength 6],
             touched = True\<rparr>,
          confirmPassword =
            \<lparr>cvalue = ''secret2'', validators = [Required], touched = True\<rparr>,
          registerForm_touched = True\<rparr>,
       register_hidePassword = False,
       hideConfirmPassword = True\<rparr>,
      \<lparr>profileSignal = Some sample_profile, loadingSignal = True,
       errorSignal = Some ''Failed to update profile'',
       navigations = [''/dashboard''],
       sdk_requests = [AuthSignInWithPassword ''ann@example.com'' ''secret1'',
                       ProfilesSelectSingle ''u1'']\<rparr>)"
proof -
  have a: "loginForm_invalid (\<lambda>s. CHR ''@'' \<in> set s) (loginForm sample_login)"
    by (simp add: loginForm_invalid_def sample_login_def control_valid_def)
  have b: "registerForm_invalid (\<lambda>s. CHR ''@'' \<in> set s) (registerForm sample_register)"
    by (simp add: registerForm_invalid_def sample_register_def registerForm_input_def
          RegisterComponent_initializeForm_def control_valid_def
          passwordMatchValidator_def registerForm_get_def)
  from a invalid_submit_only_marks_touched
    [where wellFormed = "\<lambda>s. CHR ''@'' \<in> set s" and lc = sample_login
       and bk = backend_accepting and w = sample_world]
  have "LoginComponent_onSubmit (\<lambda>s. CHR ''@'' \<in> set s) backend_accepting
       (sample_login, sample_world) =
     (sample_login\<lparr>loginForm := loginForm_markAllAsTouched (loginForm sample_login)\<rparr>,
      sample_world)"
    by blast
  then have c: "LoginComponent_onSubmit (\<lambda>s. CHR ''@'' \<in> set s) backend_accepting
       (sample_login, sample_world) =
     (\<lparr>loginForm =
         \<lparr>login_email =
            \<lparr>cvalue = ''ann'', validators = [Required, Email], touched = True\<rparr>,
          login_password =
            \<lparr>cvalue = ''abc'', validators = [Required, MinLength 6], touched = True\<rparr>,
          rememberMe = \<lparr>cvalue = True, validators = [], touched = True\<rparr>,
          loginForm_touched = True\<rparr>,
       isLoading = True,
       errorMessage = Some ''Email not confirmed'',
       hidePassword = False\<rparr>,
      \<lparr>profileSignal = Some sample_profile, loadingSignal = True,
       errorSignal = Some ''Failed to update profile'',
       navigations = [''/dashboard''],
       sdk_requests = [AuthSignInWithPassword ''ann@example.com'' ''secret1'',
                       ProfilesSelectSingle ''u1'']\<rparr>)"
    by (simp add: sample_login_def sample_world_def loginForm_markAllAsTouched_def)
  from b invalid_submit_only_marks_touched
    [where wellFormed = "\<lambda>s. CHR ''@'' \<in> set s" and rc = sample_register
       and bk = backend_accepting and w = sample_world]
  have "RegisterComponent_onSubmit (\<lambda>s. CHR ''@'' \<in> set s) backend_accepting
       (sample_register, sample_world) =
     (sample_register
        \<lparr>registerForm := registerForm_markAllAsTouched (registerForm sample_register)\<rparr>,
      sample_world)"
    by blast
  then have d: "RegisterComponent_onSubmit (\<lambda>s. CHR ''@'' \<in> set s) backend_accepting
       (sample_register, sample_world) =
     (\<lparr>registerForm =
         \<lparr>fullName =
            \<lparr>cvalue = ''Ann'', validators = [Required, MinLength 2], touched = True\<rparr>,
          email =
            \<lparr>cvalue = ''ann@example.com'', validators = [Required, Email],
             touched = True\<rparr>,
          password =
            \<lparr>cvalue = ''secret1'', validators = [Required, MinLength 6],
             touched = True\<rparr>,
          confirmPassword =
            \<lparr>cvalue = ''secret2'', validators = [Required], touched = True\<rparr>,
          registerForm_touched = True\<rparr>,
       register_hidePassword = False,
       hideConfirmPassword = True\<rparr>,
      \<lparr>profileSignal = Some sample_profile, loadingSignal = True,
       errorSignal = Some ''Failed to update profile'',
       navigations = [''/dashboard''],
       sdk_requests = [AuthSignInWithPassword ''ann@example.com'' ''secret1'',
                       ProfilesSelectSingle ''u1'']\<rparr>)"
    by (simp add: sample_register_def sample_world_def registerForm_markAllAsTouched_def
          registerForm_input_def RegisterComponent_initializeForm_def)
  from a b c d show ?thesis by blast
qed

text \<open>
  Claim C6, as amended. A response with \<open>success\<close> true makes the login page navigate to
  \<open>/dashboard\<close> and changes nothing else. Any other response leaves the navigations alone,
  sets \<open>isLoading\<close> to false, and sets \<open>errorMessage\<close> to the error of the response when
  that is a non-empty string, and to \<open>Sign in failed. Please try again.\<close> when it is null
  or the empty string.
\<close>

theorem LoginComponent_next_reflects_response:
  "(success r \<longrightarrow>
      LoginComponent_next r (c, w) =
        (c, w\<lparr>navigations := navigations w @ [''/dashboard'']\<rparr>)) \<and>
   (\<not> success r \<longrightarrow>
      snd (LoginComponent_next r (c, w)) = w \<and>
      isLoading (fst (LoginComponent_next r (c, w))) = False \<and>
      loginForm (fst (LoginComponent_next r (c, w))) = loginForm c \<and>
      (\<forall>e. error r = Some e \<and> e \<noteq> [] \<longrightarrow>
         errorMessage (fst (LoginComponent_next r (c, w))) = Some e) \<and>
      (error r = None \<or> error r = Some [] \<longrightarrow>
         errorMessage (fst (LoginComponent_next r (c, w))) =
           Some ''Sign in failed. Please try again.''))"
  by (auto simp: LoginComponent_next_def js_or_def)

theorem LoginComponent_next_reflects_response_witness:
  "LoginComponent_next \<lparr>success = True, error = None, profile = Some sample_profile\<rparr>
       (LoginComponent_init, World_init) =
     (LoginComponent_init, World_init\<lparr>navigations := [''/dashboard'']\<rparr>) \<and>
   isLoading (fst (LoginComponent_next
       \<lparr>success = False, error = Some ''Email not confirmed'', profile = None\<rparr>
       (LoginComponent_init\<lparr>isLoading := True\<rparr>, World_init))) = False \<and>
   errorMessage (fst (LoginComponent_next
       \<lparr>success = False, error = Some ''Email not confirmed'', profile = None\<rparr>
       (LoginComponent_init\<lparr>isLoading := True\<rparr>, World_init))) =
     Some ''Email not confirmed'' \<and>
   errorMessage (fst (LoginComponent_next
       \<lparr>success = False, error = None, profile = None\<rparr>
       (LoginComponent_init\<lparr>isLoading := True\<rparr>, World_init))) =
     Some ''Sign in failed. Please try again.''"
proof -
  have n: "navigations World_init = []"
    by (simp add: World_init_def)
  from n LoginComponent_next_reflects_response
    [of "\<lparr>success = True, error = None, profile = Some sample_profile\<rparr>"
        LoginComponent_init World_init]
  have a: "LoginComponent_next \<lparr>success = True, error = None, profile = Some sample_profile\<rparr>
       (LoginComponent_init, World_init) =
     (LoginComponent_init, World_init\<lparr>navigations := [''/dashboard'']\<rparr>)"
    by simp
  from LoginComponent_next_reflects_response
    [of "\<lparr>success = False, error = Some ''Email not confirmed'', profile = None\<rparr>"
        "LoginComponent_init\<lparr>isLoading := True\<rparr>" World_init]
  have b: "isLoading (fst (LoginComponent_next
       \<lparr>success = False, error = Some ''Email not confirmed'', profile = None\<rparr>
       (LoginComponent_init\<lparr>isLoading := True\<rparr>, World_init))) = False \<and>
   errorMessage (fst (LoginComponent_next
       \<lparr>success = False, error = Some ''Email not confirmed'', profile = None\<rparr>
       (LoginComponent_init\<lparr>isLoading := True\<rparr>, World_init))) =
     Some ''Email not confirmed''"
    by simp
  from LoginComponent_next_reflects_response
    [of "\<lparr>success = False, error = None, profile = None\<rparr>"
        "LoginComponent_init\<lparr>isLoading := True\<rparr>" World_init]
  have c: "errorMessage (fst (LoginComponent_next
       \<lparr>success = False, error = None, profile = None\<rparr>
       (LoginComponent_init\<lparr>isLoading := True\<rparr>, World_init))) =
     Some ''Sign in failed. Please try again.''"
    by simp
  from a b c show ?thesis by blast
qed

text \<open>
  The claim as first stated fails on a response whose error is the empty string, which
  \<open>signIn\<close> returns when the error object of the SDK carries an empty message: the page
  then shows the fallback text, not the error of the response.
\<close>

theorem LoginComponent_next_empty_error_counterexample:
  "error (fst (signIn
       (backend_refusing\<lparr>auth_signInWithPassword :=
          (\<lambda>e p. Resolved \<lparr>data_user = None, auth_error = Some []\<rparr>)\<rparr>)
       sample_signIn World_init)) = Some [] \<and>
   errorMessage (fst (LoginComponent_next
       \<lparr>success = False, error = Some [], profile = None\<rparr>
       (LoginComponent_init, World_init))) \<noteq> Some [] \<and>
   errorMessage (fst (LoginComponent_next
       \<lparr>success = False, error = Some [], profile = None\<rparr>
       (LoginComponent_init, World_init))) = Some ''Sign in failed. Please try again.''"
proof -
  have "formatAuthError [] = []"
    by code_simp
  then show ?thesis
    by (simp add: signIn_def Let_def LoginComponent_next_def js_or_def)
qed

lemma initializeForm_validity:
  "(\<not> registerForm_invalid wellFormed
        (registerForm_input n e p c RegisterComponent_initializeForm)) =
   (2 \<le> length n \<and> e \<noteq> [] \<and> wellFormed e \<and> 6 \<le> length p \<and> c \<noteq> [] \<and> p = c)"
  by (auto simp: registerForm_invalid_def registerForm_input_def
        RegisterComponent_initializeForm_def control_valid_def
        passwordMatchValidator_def registerForm_get_def)

lemma declared_validators_validity:
  assumes "validators (fullName f) = validators (fullName RegisterComponent_initializeForm)"
    and "validators (email f) = validators (email RegisterComponent_initializeForm)"
    and "validators (password f) = validators (password RegisterComponent_initializeForm)"
    and "validators (confirmPassword f) =
           validators (confirmPassword RegisterComponent_initializeForm)"
  shows "(\<not> registerForm_invalid wellFormed f) =
         (2 \<le> length (cvalue (fullName f)) \<and>
          cvalue (email f) \<noteq> [] \<and> wellFormed (cvalue (email f)) \<and>
          6 \<le> length (cvalue (password f)) \<and>
          cvalue (confirmPassword f) \<noteq> [] \<and>
          cvalue (password f) = cvalue (confirmPassword f))"
proof -
  have match: "(passwordMatchValidator (registerForm_get f) = None) =
      (cvalue (password f) = cvalue (confirmPassword f))"
    by (simp add: passwordMatchValidator_def registerForm_get_def)
  from assms show ?thesis
    by (auto simp: registerForm_invalid_def control_valid_def match
          RegisterComponent_initializeForm_def)
qed

text \<open>
  Claim C5. The registration form that \<open>initializeForm\<close> builds, with any four values
  typed into it, is valid only when the full name has at least 2 characters, the e-mail
  address is present and well-formed, the password has at least 6 characters and the
  confirmation is present; it is valid exactly when, in addition, password and
  confirmation are equal. The same holds of every form that carries the validators of
  the form built by \<open>initializeForm\<close>, touched or not. On a control that has both
  children, \<open>passwordMatchValidator\<close> returns null exactly when their values are equal,
  and \<open>passwordMismatch: true\<close> otherwise.
\<close>

theorem registerForm_validation:
  "(\<not> registerForm_invalid wellFormed
        (registerForm_input n e p c RegisterComponent_initializeForm) \<longrightarrow>
      2 \<le> length n \<and> e \<noteq> [] \<and> wellFormed e \<and> 6 \<le> length p \<and> c \<noteq> []) \<and>
   (\<not> registerForm_invalid wellFormed
        (registerForm_input n e p c RegisterComponent_initializeForm) \<longleftrightarrow>
      2 \<le> length n \<and> e \<noteq> [] \<and> wellFormed e \<and> 6 \<le> length p \<and> c \<noteq> [] \<and> p = c) \<and>
   validators (fullName RegisterComponent_initializeForm) = [Required, MinLength 2] \<and>
   validators (email RegisterComponent_initializeForm) = [Required, Email] \<and>
   validators (password RegisterComponent_initializeForm) = [Required, MinLength 6] \<and>
   validators (confirmPassword RegisterComponent_initializeForm) = [Required] \<and>
   (validators (fullName f) = validators (fullName RegisterComponent_initializeForm) \<and>
    validators (email f) = validators (email RegisterComponent_initializeForm) \<and>
    validators (password f) = validators (password RegisterComponent_initializeForm) \<and>
    validators (confirmPassword f) =
      validators (confirmPassword RegisterComponent_initializeForm) \<longrightarrow>
      (\<not> registerForm_invalid wellFormed f \<longrightarrow>
         2 \<le> length (cvalue (fullName f)) \<and>
         cvalue (email f) \<noteq> [] \<and> wellFormed (cvalue (email f)) \<and>
         6 \<le> length (cvalue (password f)) \<and>
         cvalue (confirmPassword f) \<noteq> []) \<and>
      (\<not> registerForm_invalid wellFormed f \<longleftrightarrow>
         2 \<le> length (cvalue (fullName f)) \<and>
         cvalue (email f) \<noteq> [] \<and> wellFormed (cvalue (email f)) \<and>
         6 \<le> length (cvalue (password f)) \<and>
         cvalue (confirmPassword f) \<noteq> [] \<and>
         cvalue (password f) = cvalue (confirmPassword f))) \<and>
   (get ''password'' = Some pc \<and> get ''confirmPassword'' = Some cc \<longrightarrow>
      (passwordMatchValidator get = None \<longleftrightarrow> cvalue pc = cvalue cc) \<and>
      (cvalue pc \<noteq> cvalue cc \<longrightarrow>
         passwordMatchValidator get = Some [(''passwordMismatch'', True)]))"
proof -
  have built: "(\<not> registerForm_invalid wellFormed
        (registerForm_input n e p c RegisterComponent_initializeForm)) =
      (2 \<le> length n \<and> e \<noteq> [] \<and> wellFormed e \<and> 6 \<le> length p \<and> c \<noteq> [] \<and> p = c)"
    by (rule initializeForm_validity)
  have declared: "validators (fullName RegisterComponent_initializeForm) =
        [Required, MinLength 2] \<and>
      validators (email RegisterComponent_initializeForm) = [Required, Email] \<and>
      validators (password RegisterComponent_initializeForm) = [Required, MinLength 6] \<and>
      validators (confirmPassword RegisterComponent_initializeForm) = [Required]"
    by (simp add: RegisterComponent_initializeForm_def)
  have general: "(\<not> registerForm_invalid wellFormed f) =
         (2 \<le> length (cvalue (fullName f)) \<and>
          cvalue (email f) \<noteq> [] \<and> wellFormed (cvalue (email f)) \<and>
          6 \<le> length (cvalue (password f)) \<and>
          cvalue (confirmPassword f) \<noteq> [] \<and>
          cvalue (password f) = cvalue (confirmPassword f))"
    if "validators (fullName f) = validators (fullName RegisterComponent_initializeForm) \<and>
        validators (email f) = validators (email RegisterComponent_initializeForm) \<and>
        validators (password f) = validators (password RegisterComponent_initializeForm) \<and>
        validators (confirmPassword f) =
          validators (confirmPassword RegisterComponent_initializeForm)"
    using that by (intro declared_validators_validity) simp_all
  have validator: "(passwordMatchValidator get = None) = (cvalue pc = cvalue cc) \<and>
      (cvalue pc \<noteq> cvalue cc \<longrightarrow>
         passwordMatchValidator get = Some [(''passwordMismatch'', True)])"
    if "get ''password'' = Some pc \<and> get ''confirmPassword'' = Some cc"
    using that by (simp add: passwordMatchValidator_def)
  from built declared general validator show ?thesis
    by blast
qed

theorem registerForm_validation_witness:
  "\<not> registerForm_invalid (\<lambda>s. CHR ''@'' \<in> set s)
       (registerForm_input ''Ann'' ''ann@example.com'' ''secret1'' ''secret1''
          RegisterComponent_initializeForm) \<and>
   registerForm_invalid (\<lambda>s. CHR ''@'' \<in> set s)
       (registerForm_input ''A'' ''ann@example.com'' ''secret1'' ''secret1''
          RegisterComponent_initializeForm) \<and>
   registerForm_invalid (\<lambda>s. CHR ''@'' \<in> set s)
       (registerForm_input ''Ann'' ''ann.example.com'' ''secret1'' ''secret1''
          RegisterComponent_initializeForm) \<and>
   registerForm_invalid (\<lambda>s. CHR ''@'' \<in> set s)
       (registerForm_input ''Ann'' ''ann@example.com'' ''abc'' ''abc''
          RegisterComponent_initializeForm) \<and>
   registerForm_invalid (\<lambda>s. CHR ''@'' \<in> set s)
       (registerForm_input ''Ann'' ''ann@example.com'' ''secret1'' ''''
          RegisterComponent_initializeForm) \<and>
   registerForm_invalid (\<lambda>s. CHR ''@'' \<in> set s)
       (registerForm_input ''Ann'' ''ann@example.com'' ''secret1'' ''secret2''
          RegisterComponent_initializeForm) \<and>
   passwordMatchValidator
       (registerForm_get
          (registerForm_input ''Ann'' ''ann@example.com'' ''secret1'' ''secret2''
             RegisterComponent_initializeForm)) =
     Some [(''passwordMismatch'', True)]"
proof -
  let ?wf = "\<lambda>s. CHR ''@'' \<in> set s"
  let ?bad = "registerForm_input ''Ann'' ''ann@example.com'' ''secret1'' ''secret2''
                RegisterComponent_initializeForm"
  have a: "\<not> registerForm_invalid ?wf
       (registerForm_input ''Ann'' ''ann@example.com'' ''secret1'' ''secret1''
          RegisterComponent_initializeForm)"
    using registerForm_validation
      [where wellFormed = ?wf and n = "''Ann''" and e = "''ann@example.com''"
         and p = "''secret1''" and c = "''secret1''"]
    by simp
  have b: "registerForm_invalid ?wf
       (registerForm_input ''A'' ''ann@example.com'' ''secret1'' ''secret1''
          RegisterComponent_initializeForm)"
    using registerForm_validation
      [where wellFormed = ?wf and n = "''A''" and e = "''ann@example.com''"
         and p = "''secret1''" and c = "''secret1''"]
    by simp
  have c: "registerForm_invalid ?wf
       (registerForm_input ''Ann'' ''ann.example.com'' ''secret1'' ''secret1''
          RegisterComponent_initializeForm)"
    using registerForm_validation
      [where wellFormed = ?wf and n = "''Ann''" and e = "''ann.example.com''"
         and p = "''secret1''" and c = "''secret1''"]
    by simp
  have d: "registerForm_invalid ?wf
       (registerForm_input ''Ann'' ''ann@example.com'' ''abc'' ''abc''
          RegisterComponent_initializeForm)"
    using registerForm_validation
      [where wellFormed = ?wf and n = "''Ann''" and e = "''ann@example.com''"
         and p = "''abc''" and c = "''abc''"]
    by simp
  have e: "registerForm_invalid ?wf
       (registerForm_input ''Ann'' ''ann@example.com'' ''secret1'' ''''
          RegisterComponent_initializeForm)"
    using registerForm_validation
      [where wellFormed = ?wf and n = "''Ann''" and e = "''ann@example.com''"
         and p = "''secret1''" and c = "''''"]
    by simp
  have f: "registerForm_invalid ?wf ?bad"
    using registerForm_validation
      [where wellFormed = ?wf and n = "''Ann''" and e = "''ann@example.com''"
         and p = "''secret1''" and c = "''secret2''"]
    by simp
  have children: "registerForm_get ?bad ''password'' = Some (password ?bad) \<and>
      registerForm_get ?bad ''confirmPassword'' = Some (confirmPassword ?bad)"
    by (simp add: registerForm_get_def)
  have differ: "cvalue (password ?bad) \<noteq> cvalue (confirmPassword ?bad)"
    by (simp add: registerForm_input_def RegisterComponent_initializeForm_def)
  from children differ
    registerForm_validation [where get = "registerForm_get ?bad" and pc = "password ?bad"
      and cc = "confirmPassword ?bad"]
  have g: "passwordMatchValidator (registerForm_get ?bad) = Some [(''passwordMismatch'', True)]"
    by blast
  from a b c d e f g show ?thesis by blast
qed

section \<open>The declared types of \<open>position\<close>\<close>

text \<open>
  Claim C7 does not hold of the declarations. Of the fields that an update request
  shares with its entity, \<open>position\<close> is the one declared with another type, also up to
  optionality: \<open>string\<close> in \<open>UpdateTaskRequest\<close> and \<open>UpdateColumnRequest\<close>, \<open>number\<close> in
  \<open>Task\<close> and \<open>Column\<close>.
\<close>

theorem position_declared_string_in_update_requests:
  "mismatched_fields UpdateTaskRequest Task = [''position''] \<and>
   mismatched_fields UpdateColumnRequest Column = [''position''] \<and>
   field_type UpdateTaskRequest ''position'' = Some T_string \<and>
   field_type Task ''position'' = Some T_number \<and>
   field_type UpdateColumnRequest ''position'' = Some T_string \<and>
   field_type Column ''position'' = Some T_number"
  by code_simp

end
